theory Spec2Isabelle
  imports Main "HOL-Library.Word"
begin

section \<open>The data-seeding script \<open>scripts/populate_data/populate.py\<close>\<close>

text \<open>
  The script reads one JSON fixture file per entity type from \<open>./data/\<close> and sends every
  record of it to a REST API with \<open>requests.post\<close>, in a fixed order of entity types.
  Everything outside the script is a parameter of the model (the record \<open>env\<close> below):
  the file system, the JSON parser of the standard library and the HTTP client.
  What the script does to the outside is recorded in a state that is passed along:
  the POST calls it has made and the lines it has printed, both in order.
  Python exceptions are values: no function of the script catches any, so an
  exception raised anywhere ends every enclosing loop and the run.
\<close>

subsection \<open>Values\<close>

text \<open>
  What \<open>json.load\<close> returns: \<open>None\<close>, a \<open>bool\<close>, an \<open>int\<close> (unbounded), a \<open>float\<close>
  (an IEEE-754 double, kept as its 64 bits), a \<open>str\<close>, a \<open>list\<close> or a \<open>dict\<close> with
  string keys. A \<open>dict\<close> is the list of its items in insertion order; its keys are
  distinct.
\<close>

datatype jvalue =
    JNull
  | JBool bool
  | JInt int
  | JFloat "64 word"
  | JStr string
  | JArr "jvalue list"
  | JObj "(string \<times> jvalue) list"

text \<open>The exceptions a run can end with, by the place that raises them.\<close>

datatype py_error =
    KeyError string       \<comment> \<open>\<open>ENTITIES[entity_type]\<close> with an unknown entity type\<close>
  | AttributeError        \<comment> \<open>\<open>data.get\<close> on a value that is not a \<open>dict\<close>\<close>
  | FileReadError         \<comment> \<open>\<open>open(file_path, 'r')\<close> or reading the file fails\<close>
  | JSONDecodeError       \<comment> \<open>\<open>json.load\<close>: the file's text is not valid JSON\<close>
  | RequestException      \<comment> \<open>\<open>requests.post\<close> gets no response (connection error, timeout)\<close>

text \<open>The arguments of one call \<open>requests.post(url, json=data, headers=HEADERS)\<close>.\<close>

record post_call =
  url :: string
  json :: jvalue
  headers :: "(string \<times> string) list"

text \<open>The two attributes of a response that the script reads.\<close>

record response =
  status_code :: int
  response_text :: string

text \<open>
  The lines the script prints, one constructor per \<open>print\<close> statement, with the values
  that its f-string formats:
  \<^item> \<open>Populating e\<close>: \<^verbatim>\<open>print(f"\nPopulating {entity_type}...")\<close>
  \<^item> \<open>File_not_found p\<close>: \<^verbatim>\<open>print(f"File not found: {file_path}")\<close>
  \<^item> \<open>Successfully_created e i\<close>: \<^verbatim>\<open>print(f"Successfully created {entity_type}: {data.get('id', 'N/A')}")\<close>
  \<^item> \<open>Failed_to_create e i\<close>: \<^verbatim>\<open>print(f"Failed to create {entity_type}: {data.get('id', 'N/A')}")\<close>
  \<^item> \<open>Status_code n\<close>: \<^verbatim>\<open>print(f"Status code: {response.status_code}")\<close>
  \<^item> \<open>Response t\<close>: \<^verbatim>\<open>print(f"Response: {response.text}")\<close>
\<close>

datatype line =
    Populating string
  | File_not_found string
  | Successfully_created string jvalue
  | Failed_to_create string jvalue
  | Status_code int
  | Response string

subsection \<open>The environment and the state of a run\<close>

text \<open>
  \<^item> \<open>os_path_exists p\<close>: \<open>os.path.exists(p)\<close>.
  \<^item> \<open>open_read p\<close>: the text of the file at \<open>p\<close>; \<open>None\<close> when \<open>open\<close> or the read
    raises.
  \<^item> \<open>json_loads t\<close>: the value that the text \<open>t\<close> denotes; \<open>None\<close> when \<open>t\<close> is not
    valid JSON.
  \<^item> \<open>requests_post log c\<close>: the response to the call \<open>c\<close>, made after the calls \<open>log\<close>
    (the server may answer the same request differently each time); \<open>None\<close> when no
    response arrives and \<open>requests.post\<close> raises.
\<close>

record env =
  os_path_exists :: "string \<Rightarrow> bool"
  open_read :: "string \<Rightarrow> string option"
  json_loads :: "string \<Rightarrow> jvalue option"
  requests_post :: "post_call list \<Rightarrow> post_call \<Rightarrow> response option"

record run_state =
  calls :: "post_call list"
  console :: "line list"

definition py_print :: "run_state \<Rightarrow> line \<Rightarrow> run_state" where
  "py_print s l = s\<lparr>console := console s @ [l]\<rparr>"

subsection \<open>Constants of the script\<close>

definition BASE_URL :: string where
  "BASE_URL = ''http://localhost:8080/api/v1''"

definition BEARER_TOKEN :: string where
  "BEARER_TOKEN = ''<YOUR_BEARER>''"

definition HEADERS :: "(string \<times> string) list" where
  "HEADERS =
    [(''Authorization'', ''Bearer '' @ BEARER_TOKEN),
     (''Content-Type'', ''application/json'')]"

definition ENTITIES :: "(string \<times> string) list" where
  "ENTITIES =
    [(''organization'', ''/organizations''),
     (''department'', ''/departments''),
     (''permission'', ''/permissions''),
     (''role'', ''/roles''),
     (''group'', ''/groups''),
     (''user'', ''/users''),
     (''resource'', ''/resources''),
     (''policy'', ''/policies''),
     (''resourceType'', ''/resource-types''),
     (''attributeGroup'', ''/attribute-groups'')]"

definition creation_order :: "string list" where
  "creation_order =
    [''organization'',
     ''department'',
     ''permission'',
     ''role'',
     ''group'',
     ''user'',
     ''resourceType'',
     ''attributeGroup'',
     ''resource'',
     ''policy'']"

subsection \<open>The functions of the script\<close>

text \<open>\<open>read_json_file\<close>: open the file and parse its text; either step may raise.\<close>

definition read_json_file :: "env \<Rightarrow> string \<Rightarrow> py_error + jvalue" where
  "read_json_file ev file_path =
    (case open_read ev file_path of
       None \<Rightarrow> Inl FileReadError
     | Some txt \<Rightarrow>
        (case json_loads ev txt of
           None \<Rightarrow> Inl JSONDecodeError
         | Some v \<Rightarrow> Inr v))"

text \<open>\<open>data.get(key, default)\<close>: only a \<open>dict\<close> has the method.\<close>

definition dict_get :: "jvalue \<Rightarrow> string \<Rightarrow> jvalue \<Rightarrow> py_error + jvalue" where
  "dict_get data k dflt =
    (case data of
       JObj kvs \<Rightarrow> Inr (case map_of kvs k of None \<Rightarrow> dflt | Some v \<Rightarrow> v)
     | _ \<Rightarrow> Inl AttributeError)"

text \<open>
  \<open>create_entity\<close>: look the path up, post the record, then print according to the
  status. The call is in the log as soon as it is made, whatever comes back.
\<close>

definition create_entity ::
  "env \<Rightarrow> string \<Rightarrow> jvalue \<Rightarrow> run_state \<Rightarrow> (py_error + unit) \<times> run_state" where
  "create_entity ev entity_type data s =
    (case map_of ENTITIES entity_type of
       None \<Rightarrow> (Inl (KeyError entity_type), s)
     | Some path \<Rightarrow>
        (let c = \<lparr>url = BASE_URL @ path, json = data, headers = HEADERS\<rparr>;
             s1 = s\<lparr>calls := calls s @ [c]\<rparr>
         in case requests_post ev (calls s) c of
              None \<Rightarrow> (Inl RequestException, s1)
            | Some resp \<Rightarrow>
               if status_code resp = 201 then
                 (case dict_get data ''id'' (JStr ''N/A'') of
                    Inl err \<Rightarrow> (Inl err, s1)
                  | Inr ident \<Rightarrow>
                     (Inr (), py_print s1 (Successfully_created entity_type ident)))
               else
                 (case dict_get data ''id'' (JStr ''N/A'') of
                    Inl err \<Rightarrow> (Inl err, s1)
                  | Inr ident \<Rightarrow>
                     (Inr (),
                      py_print
                        (py_print
                          (py_print s1 (Failed_to_create entity_type ident))
                          (Status_code (status_code resp)))
                        (Response (response_text resp))))))"

text \<open>The loop \<open>for item in data: create_entity(entity_type, item)\<close>.\<close>

fun create_each ::
  "env \<Rightarrow> string \<Rightarrow> jvalue list \<Rightarrow> run_state \<Rightarrow> (py_error + unit) \<times> run_state" where
  "create_each ev entity_type [] s = (Inr (), s)"
| "create_each ev entity_type (item # items) s =
    (case create_entity ev entity_type item s of
       (Inl err, s') \<Rightarrow> (Inl err, s')
     | (Inr u, s') \<Rightarrow> create_each ev entity_type items s')"

definition fixture_path :: "string \<Rightarrow> string" where
  "fixture_path entity_type = ''./data/'' @ entity_type @ ''.json''"

text \<open>
  \<open>populate_data\<close>: a missing file is reported and skipped; a \<open>list\<close> is posted item by
  item, anything else is posted as it is.
\<close>

definition populate_data ::
  "env \<Rightarrow> string \<Rightarrow> run_state \<Rightarrow> (py_error + unit) \<times> run_state" where
  "populate_data ev entity_type s =
    (let file_path = fixture_path entity_type in
     if \<not> os_path_exists ev file_path then
       (Inr (), py_print s (File_not_found file_path))
     else
       (case read_json_file ev file_path of
          Inl err \<Rightarrow> (Inl err, s)
        | Inr data \<Rightarrow>
           (case data of
              JArr items \<Rightarrow> create_each ev entity_type items s
            | _ \<Rightarrow> create_entity ev entity_type data s)))"

text \<open>The loop of \<open>main\<close> over the entity types that remain.\<close>

fun populate_each ::
  "env \<Rightarrow> string list \<Rightarrow> run_state \<Rightarrow> (py_error + unit) \<times> run_state" where
  "populate_each ev [] s = (Inr (), s)"
| "populate_each ev (entity_type # rest) s =
    (case populate_data ev entity_type (py_print s (Populating entity_type)) of
       (Inl err, s') \<Rightarrow> (Inl err, s')
     | (Inr u, s') \<Rightarrow> populate_each ev rest s')"

definition main :: "env \<Rightarrow> (py_error + unit) \<times> run_state" where
  "main ev = populate_each ev creation_order \<lparr>calls = [], console = []\<rparr>"

subsection \<open>Vocabulary for stating what a run does\<close>

text \<open>A record is a JSON object.\<close>

definition is_record :: "jvalue \<Rightarrow> bool" where
  "is_record v = (case v of JObj kvs \<Rightarrow> True | _ \<Rightarrow> False)"

text \<open>What a report shows for a record: its \<open>id\<close>, or the placeholder \<open>N/A\<close>.\<close>

definition record_id :: "jvalue \<Rightarrow> jvalue" where
  "record_id v =
    (case v of
       JObj kvs \<Rightarrow> (case map_of kvs ''id'' of None \<Rightarrow> JStr ''N/A'' | Some i \<Rightarrow> i)
     | _ \<Rightarrow> JStr ''N/A'')"

text \<open>The POST call that publishes the record \<open>d\<close> at the path \<open>path\<close>.\<close>

definition request_for :: "string \<Rightarrow> jvalue \<Rightarrow> post_call" where
  "request_for path d = \<lparr>url = BASE_URL @ path, json = d, headers = HEADERS\<rparr>"

text \<open>The lines printed for a record of entity type \<open>e\<close> after the response \<open>r\<close>.\<close>

definition report :: "string \<Rightarrow> jvalue \<Rightarrow> response \<Rightarrow> line list" where
  "report e d r =
    (if status_code r = 201 then [Successfully_created e (record_id d)]
     else [Failed_to_create e (record_id d), Status_code (status_code r),
           Response (response_text r)])"

text \<open>The records of a parsed fixture: the elements of an array, or the one value.\<close>

definition fixture_records :: "jvalue \<Rightarrow> jvalue list" where
  "fixture_records data = (case data of JArr items \<Rightarrow> items | _ \<Rightarrow> [data])"

text \<open>The records of the fixture file of an entity type; none when there is no such file.\<close>

definition file_records :: "env \<Rightarrow> string \<Rightarrow> jvalue list" where
  "file_records ev e =
    (if os_path_exists ev (fixture_path e) then
       (case read_json_file ev (fixture_path e) of
          Inl err \<Rightarrow> []
        | Inr data \<Rightarrow> fixture_records data)
     else [])"

text \<open>One POST call for each record of the fixture file of \<open>e\<close>, in the file's order.\<close>

definition entity_calls :: "env \<Rightarrow> string \<Rightarrow> post_call list" where
  "entity_calls ev e =
    (case map_of ENTITIES e of
       None \<Rightarrow> []
     | Some p \<Rightarrow> map (request_for p) (file_records ev e))"

text \<open>The heading of \<open>e\<close>, then one success line for each record of its fixture file.\<close>

definition entity_success_lines :: "env \<Rightarrow> string \<Rightarrow> line list" where
  "entity_success_lines ev e =
    Populating e # map (\<lambda>d. Successfully_created e (record_id d)) (file_records ev e)"

subsection \<open>Sample environments\<close>

text \<open>
  A data directory is a list of paths with the text of each file. The parser knows the
  texts used below and takes every other text as invalid JSON.
\<close>

definition sample_json_loads :: "string \<Rightarrow> jvalue option" where
  "sample_json_loads t =
    (if t = ''{\"id\": \"org1\"}'' then Some (JObj [(''id'', JStr ''org1'')])
     else if t = ''[{\"id\": \"u1\"}, {\"name\": \"Ann\"}]'' then
       Some (JArr [JObj [(''id'', JStr ''u1'')], JObj [(''name'', JStr ''Ann'')]])
     else if t = ''{\"id\": \"p1\"}'' then Some (JObj [(''id'', JStr ''p1'')])
     else if t = ''[]'' then Some (JArr [])
     else None)"

definition env_with ::
  "(string \<times> string) list \<Rightarrow> (post_call list \<Rightarrow> post_call \<Rightarrow> response option) \<Rightarrow> env" where
  "env_with files api =
    \<lparr>os_path_exists = (\<lambda>p. map_of files p \<noteq> None),
     open_read = map_of files,
     json_loads = sample_json_loads,
     requests_post = api\<rparr>"

text \<open>
  Three fixture files only: one organization, two users (the second without \<open>id\<close>)
  and one policy.
\<close>

definition three_files :: "(string \<times> string) list" where
  "three_files =
    [(''./data/organization.json'', ''{\"id\": \"org1\"}''),
     (''./data/user.json'', ''[{\"id\": \"u1\"}, {\"name\": \"Ann\"}]''),
     (''./data/policy.json'', ''{\"id\": \"p1\"}'')]"

text \<open>All ten fixture files, eight of them empty arrays.\<close>

definition ten_files :: "(string \<times> string) list" where
  "ten_files =
    [(''./data/organization.json'', ''{\"id\": \"org1\"}''),
     (''./data/department.json'', ''[]''),
     (''./data/permission.json'', ''[]''),
     (''./data/role.json'', ''[]''),
     (''./data/group.json'', ''[]''),
     (''./data/user.json'', ''[{\"id\": \"u1\"}, {\"name\": \"Ann\"}]''),
     (''./data/resourceType.json'', ''[]''),
     (''./data/attributeGroup.json'', ''[]''),
     (''./data/resource.json'', ''[]''),
     (''./data/policy.json'', ''[]'')]"

text \<open>The file of the second entity type is cut off in the middle of an object.\<close>

definition broken_files :: "(string \<times> string) list" where
  "broken_files =
    [(''./data/organization.json'', ''{\"id\": \"org1\"}''),
     (''./data/department.json'', ''{\"id\": ''),
     (''./data/user.json'', ''[{\"id\": \"u1\"}, {\"name\": \"Ann\"}]'')]"

text \<open>An API that creates everything, and one that rejects the user \<open>u1\<close>.\<close>

definition api_201 :: "post_call list \<Rightarrow> post_call \<Rightarrow> response option" where
  "api_201 log c = Some \<lparr>status_code = 201, response_text = ''''\<rparr>"

definition api_400_u1 :: "post_call list \<Rightarrow> post_call \<Rightarrow> response option" where
  "api_400_u1 log c =
    (if json c = JObj [(''id'', JStr ''u1'')]
     then Some \<lparr>status_code = 400, response_text = ''{\"error\": \"duplicate\"}''\<rparr>
     else Some \<lparr>status_code = 201, response_text = ''''\<rparr>)"

text \<open>An API that cannot be reached: every \<open>requests.post\<close> raises.\<close>

definition api_down :: "post_call list \<Rightarrow> post_call \<Rightarrow> response option" where
  "api_down log c = None"

section \<open>Properties\<close>

subsection \<open>Publishing one record\<close>

lemma create_entity_record:
  assumes "map_of ENTITIES e = Some p"
    and "is_record d"
    and "requests_post ev (calls s) (request_for p d) = Some r"
  shows "create_entity ev e d s =
    (Inr (), s\<lparr>calls := calls s @ [request_for p d],
               console := console s @ report e d r\<rparr>)"
  using assms
  by (cases d) (simp_all add: create_entity_def request_for_def report_def record_id_def
       is_record_def dict_get_def py_print_def Let_def)

lemma create_entity_calls:
  "map_of ENTITIES e = Some p \<Longrightarrow>
    calls (snd (create_entity ev e d s)) = calls s @ [request_for p d]"
  by (simp add: create_entity_def request_for_def Let_def py_print_def
        split: option.splits sum.splits)

text \<open>
  C7: for an entity type with the path \<open>p\<close> and any record \<open>d\<close>, \<open>create_entity\<close> makes
  exactly one call of \<open>requests.post\<close>: to the base URL followed by \<open>p\<close>, with \<open>d\<close> as the
  JSON body, an \<open>Authorization\<close> header holding \<open>Bearer\<close> and the token, and the
  \<open>Content-Type\<close> header \<open>application/json\<close>.
\<close>

theorem create_entity_request:
  assumes "map_of ENTITIES e = Some p"
  shows "calls (snd (create_entity ev e d s)) =
    calls s @
      [\<lparr>url = BASE_URL @ p, json = d,
        headers = [(''Authorization'', ''Bearer '' @ BEARER_TOKEN),
                   (''Content-Type'', ''application/json'')]\<rparr>]"
  using create_entity_calls [OF assms, of ev d s]
  by (simp add: request_for_def HEADERS_def)

theorem create_entity_request_witness:
  "calls (snd (create_entity (env_with three_files api_201) ''role''
      (JObj [(''id'', JStr ''r1'')]) \<lparr>calls = [], console = []\<rparr>)) =
    [\<lparr>url = ''http://localhost:8080/api/v1/roles'',
      json = JObj [(''id'', JStr ''r1'')],
      headers = [(''Authorization'', ''Bearer <YOUR_BEARER>''),
                 (''Content-Type'', ''application/json'')]\<rparr>]"
proof -
  have path: "map_of ENTITIES ''role'' = Some ''/roles''"
    by (simp add: ENTITIES_def)
  from create_entity_request [OF path] show ?thesis
    by (simp add: BASE_URL_def BEARER_TOKEN_def)
qed

text \<open>
  C8: when the POST of a record (a JSON object) of a known entity type gets a response,
  \<open>create_entity\<close> returns normally and prints: for status 201 one success line with the
  record's \<open>id\<close>, or with the placeholder \<open>N/A\<close> when the record has no \<open>id\<close>; for any
  other status a failure line with the same identification, a line with the numeric
  status code, and a line with the text of the response.
\<close>

theorem create_entity_report:
  assumes "map_of ENTITIES e = Some p"
    and "requests_post ev (calls s)
           \<lparr>url = BASE_URL @ p, json = JObj kvs, headers = HEADERS\<rparr> = Some r"
  shows "fst (create_entity ev e (JObj kvs) s) = Inr () \<and>
    console (snd (create_entity ev e (JObj kvs) s)) =
      console s @
        (if status_code r = 201 then
           [Successfully_created e
              (case map_of kvs ''id'' of None \<Rightarrow> JStr ''N/A'' | Some i \<Rightarrow> i)]
         else
           [Failed_to_create e
              (case map_of kvs ''id'' of None \<Rightarrow> JStr ''N/A'' | Some i \<Rightarrow> i),
            Status_code (status_code r),
            Response (response_text r)])"
  using assms
  by (simp add: create_entity_def dict_get_def py_print_def Let_def)

theorem create_entity_report_witness:
  "console (snd (create_entity (env_with three_files api_400_u1) ''user''
      (JObj [(''id'', JStr ''u1'')]) \<lparr>calls = [], console = []\<rparr>)) =
     [Failed_to_create ''user'' (JStr ''u1''), Status_code 400,
      Response ''{\"error\": \"duplicate\"}''] \<and>
   console (snd (create_entity (env_with three_files api_400_u1) ''user''
      (JObj [(''name'', JStr ''Ann'')]) \<lparr>calls = [], console = []\<rparr>)) =
     [Successfully_created ''user'' (JStr ''N/A'')]"
proof -
  have path: "map_of ENTITIES ''user'' = Some ''/users''"
    by (simp add: ENTITIES_def)
  have rejected: "requests_post (env_with three_files api_400_u1)
      (calls \<lparr>calls = [], console = []\<rparr>)
      \<lparr>url = BASE_URL @ ''/users'', json = JObj [(''id'', JStr ''u1'')], headers = HEADERS\<rparr> =
    Some \<lparr>status_code = 400, response_text = ''{\"error\": \"duplicate\"}''\<rparr>"
    by (simp add: env_with_def api_400_u1_def)
  have created: "requests_post (env_with three_files api_400_u1)
      (calls \<lparr>calls = [], console = []\<rparr>)
      \<lparr>url = BASE_URL @ ''/users'', json = JObj [(''name'', JStr ''Ann'')], headers = HEADERS\<rparr> =
    Some \<lparr>status_code = 201, response_text = ''''\<rparr>"
    by (simp add: env_with_def api_400_u1_def)
  from create_entity_report [OF path rejected] create_entity_report [OF path created]
  show ?thesis by simp
qed

subsection \<open>Publishing the records of one fixture file\<close>

lemma create_each_201:
  assumes "map_of ENTITIES e = Some p"
    and "\<forall>log c. \<exists>r. requests_post ev log c = Some r \<and> status_code r = 201"
    and "list_all is_record ds"
  shows "create_each ev e ds s =
    (Inr (), s\<lparr>calls := calls s @ map (request_for p) ds,
               console := console s @ map (\<lambda>d. Successfully_created e (record_id d)) ds\<rparr>)"
  using assms(3)
proof (induction ds arbitrary: s)
  case Nil
  show ?case by simp
next
  case (Cons d ds)
  from assms(2) obtain r where r: "requests_post ev (calls s) (request_for p d) = Some r"
    and st: "status_code r = 201" by blast
  from Cons.prems have d: "is_record d" and ds: "list_all is_record ds" by simp_all
  have "create_entity ev e d s =
    (Inr (), s\<lparr>calls := calls s @ [request_for p d],
               console := console s @ [Successfully_created e (record_id d)]\<rparr>)"
    using create_entity_record [OF assms(1) d r] st by (simp add: report_def)
  then show ?case using Cons.IH [OF ds] by simp
qed

lemma create_each_responds:
  assumes "map_of ENTITIES e = Some p"
    and "\<forall>log c. requests_post ev log c \<noteq> None"
    and "list_all is_record ds"
  shows "fst (create_each ev e ds s) = Inr () \<and>
    calls (snd (create_each ev e ds s)) = calls s @ map (request_for p) ds"
  using assms(3)
proof (induction ds arbitrary: s)
  case Nil
  show ?case by simp
next
  case (Cons d ds)
  from assms(2) obtain r where r: "requests_post ev (calls s) (request_for p d) = Some r"
    by blast
  from Cons.prems have d: "is_record d" and ds: "list_all is_record ds" by simp_all
  show ?case using create_entity_record [OF assms(1) d r] Cons.IH [OF ds] by simp
qed

text \<open>A POST that gets no response raises: the loop ends there, with the call made.\<close>

lemma create_each_no_response:
  assumes "map_of ENTITIES e = Some p"
    and "requests_post ev (calls s) (request_for p d) = None"
  shows "create_each ev e (d # ds) s =
    (Inl RequestException, s\<lparr>calls := calls s @ [request_for p d]\<rparr>)"
  using assms by (simp add: create_entity_def request_for_def)

text \<open>Whatever comes back, the calls of the loop are those of the first records, in order.\<close>

lemma create_each_calls_prefix:
  assumes "map_of ENTITIES e = Some p"
  shows "\<exists>k\<le>length ds.
    calls (snd (create_each ev e ds s)) = calls s @ map (request_for p) (take k ds)"
proof (induction ds arbitrary: s)
  case Nil
  show ?case by simp
next
  case (Cons d ds)
  obtain res s' where run: "create_entity ev e d s = (res, s')"
    by (cases "create_entity ev e d s")
  with create_entity_calls [OF assms, of ev d s]
  have step: "calls s' = calls s @ [request_for p d]" by simp
  show ?case
  proof (cases res)
    case (Inl err)
    with run step show ?thesis by (intro exI [of _ 1]) simp
  next
    case (Inr u)
    from Cons.IH [of s'] obtain k where "k \<le> length ds"
      and "calls (snd (create_each ev e ds s')) = calls s' @ map (request_for p) (take k ds)"
      by blast
    with run step Inr show ?thesis by (intro exI [of _ "Suc k"]) simp
  qed
qed

text \<open>
  C5, as the script behaves: for a known entity type whose fixture file exists and
  parses to an array of \<open>N\<close> records (JSON objects), \<open>populate_data\<close> adds one POST call
  per record to the log, in the order of the array, for the first \<open>k\<close> records with
  \<open>k\<close> at most \<open>N\<close>; when the API answers every POST with some response, whatever its
  status, it returns normally and has added exactly \<open>N\<close> calls, one for each record.
\<close>

theorem array_one_post_per_record:
  assumes "map_of ENTITIES e = Some p"
    and "os_path_exists ev (fixture_path e)"
    and "read_json_file ev (fixture_path e) = Inr (JArr items)"
    and "list_all is_record items"
  shows "(\<exists>k\<le>length items.
       calls (snd (populate_data ev e s)) =
         calls s @ map (\<lambda>d. \<lparr>url = BASE_URL @ p, json = d, headers = HEADERS\<rparr>)
                    (take k items)) \<and>
    ((\<forall>log c. requests_post ev log c \<noteq> None) \<longrightarrow>
       fst (populate_data ev e s) = Inr () \<and>
       calls (snd (populate_data ev e s)) =
         calls s @ map (\<lambda>d. \<lparr>url = BASE_URL @ p, json = d, headers = HEADERS\<rparr>) items \<and>
       length (calls (snd (populate_data ev e s))) = length (calls s) + length items)"
proof -
  have same: "(\<lambda>d. \<lparr>url = BASE_URL @ p, json = d, headers = HEADERS\<rparr>) = request_for p"
    by (simp add: request_for_def fun_eq_iff)
  have run: "populate_data ev e s = create_each ev e items s"
    using assms(2,3) by (simp add: populate_data_def)
  from create_each_calls_prefix [OF assms(1), of items ev s]
  have "\<exists>k\<le>length items.
       calls (snd (populate_data ev e s)) =
         calls s @ map (\<lambda>d. \<lparr>url = BASE_URL @ p, json = d, headers = HEADERS\<rparr>)
                    (take k items)"
    unfolding run same .
  moreover have "fst (populate_data ev e s) = Inr () \<and>
       calls (snd (populate_data ev e s)) =
         calls s @ map (\<lambda>d. \<lparr>url = BASE_URL @ p, json = d, headers = HEADERS\<rparr>) items \<and>
       length (calls (snd (populate_data ev e s))) = length (calls s) + length items"
    if "\<forall>log c. requests_post ev log c \<noteq> None"
    using create_each_responds [OF assms(1) that assms(4), of s]
    unfolding run same by simp
  ultimately show ?thesis by blast
qed

theorem array_one_post_per_record_witness:
  "fst (populate_data (env_with three_files api_400_u1) ''user'' \<lparr>calls = [], console = []\<rparr>) =
     Inr () \<and>
   calls (snd (populate_data (env_with three_files api_400_u1) ''user''
      \<lparr>calls = [], console = []\<rparr>)) =
     [\<lparr>url = ''http://localhost:8080/api/v1/users'', json = JObj [(''id'', JStr ''u1'')],
       headers = [(''Authorization'', ''Bearer <YOUR_BEARER>''),
                  (''Content-Type'', ''application/json'')]\<rparr>,
      \<lparr>url = ''http://localhost:8080/api/v1/users'', json = JObj [(''name'', JStr ''Ann'')],
       headers = [(''Authorization'', ''Bearer <YOUR_BEARER>''),
                  (''Content-Type'', ''application/json'')]\<rparr>]"
proof -
  have path: "map_of ENTITIES ''user'' = Some ''/users''"
    by (simp add: ENTITIES_def)
  have there: "os_path_exists (env_with three_files api_400_u1) (fixture_path ''user'')"
    by (simp add: env_with_def three_files_def fixture_path_def)
  have parsed: "read_json_file (env_with three_files api_400_u1) (fixture_path ''user'') =
      Inr (JArr [JObj [(''id'', JStr ''u1'')], JObj [(''name'', JStr ''Ann'')]])"
    by (simp add: env_with_def three_files_def fixture_path_def read_json_file_def
          sample_json_loads_def)
  have recs: "list_all is_record [JObj [(''id'', JStr ''u1'')], JObj [(''name'', JStr ''Ann'')]]"
    by (simp add: is_record_def)
  have api: "\<forall>log c. requests_post (env_with three_files api_400_u1) log c \<noteq> None"
    by (simp add: env_with_def api_400_u1_def)
  from array_one_post_per_record [OF path there parsed recs, of "\<lparr>calls = [], console = []\<rparr>"] api
  show ?thesis
    by (simp add: BASE_URL_def HEADERS_def BEARER_TOKEN_def)
qed

text \<open>
  C5 without that condition does not hold: with a file of two user records and an API
  that cannot be reached, the first \<open>requests.post\<close> raises, nothing catches the
  exception, and the processing of user ends with one POST call made, not two.
\<close>

theorem array_one_post_per_record_counterexample:
  "read_json_file (env_with three_files api_down) (fixture_path ''user'') =
     Inr (JArr [JObj [(''id'', JStr ''u1'')], JObj [(''name'', JStr ''Ann'')]]) \<and>
   populate_data (env_with three_files api_down) ''user'' \<lparr>calls = [], console = []\<rparr> =
     (Inl RequestException,
      \<lparr>calls = [\<lparr>url = ''http://localhost:8080/api/v1/users'',
                 json = JObj [(''id'', JStr ''u1'')],
                 headers = [(''Authorization'', ''Bearer <YOUR_BEARER>''),
                            (''Content-Type'', ''application/json'')]\<rparr>],
       console = []\<rparr>) \<and>
   length (calls (snd (populate_data (env_with three_files api_down) ''user''
       \<lparr>calls = [], console = []\<rparr>))) = 1"
  by (simp add: populate_data_def create_entity_def
        env_with_def three_files_def api_down_def fixture_path_def read_json_file_def
        sample_json_loads_def ENTITIES_def BASE_URL_def HEADERS_def BEARER_TOKEN_def)

text \<open>
  C6: for a known entity type whose fixture file exists and parses to a single JSON
  object, \<open>populate_data\<close> adds exactly one POST call to the log, and its body is that
  object.
\<close>

theorem object_one_post:
  assumes "map_of ENTITIES e = Some p"
    and "os_path_exists ev (fixture_path e)"
    and "read_json_file ev (fixture_path e) = Inr (JObj kvs)"
  shows "calls (snd (populate_data ev e s)) =
      calls s @ [\<lparr>url = BASE_URL @ p, json = JObj kvs, headers = HEADERS\<rparr>]"
  using create_entity_calls [OF assms(1), of ev "JObj kvs" s] assms(2,3)
  by (simp add: populate_data_def request_for_def)

theorem object_one_post_witness:
  "calls (snd (populate_data (env_with three_files api_201) ''organization''
      \<lparr>calls = [], console = []\<rparr>)) =
     [\<lparr>url = ''http://localhost:8080/api/v1/organizations'',
       json = JObj [(''id'', JStr ''org1'')],
       headers = [(''Authorization'', ''Bearer <YOUR_BEARER>''),
                  (''Content-Type'', ''application/json'')]\<rparr>]"
proof -
  have path: "map_of ENTITIES ''organization'' = Some ''/organizations''"
    by (simp add: ENTITIES_def)
  have there: "os_path_exists (env_with three_files api_201) (fixture_path ''organization'')"
    by (simp add: env_with_def three_files_def fixture_path_def)
  have parsed: "read_json_file (env_with three_files api_201) (fixture_path ''organization'') =
      Inr (JObj [(''id'', JStr ''org1'')])"
    by (simp add: env_with_def three_files_def fixture_path_def read_json_file_def
          sample_json_loads_def)
  from object_one_post [OF path there parsed] show ?thesis
    by (simp add: BASE_URL_def HEADERS_def BEARER_TOKEN_def)
qed

text \<open>
  C4: when there is no file at \<open>./data/\<close> followed by the entity type's name and
  \<open>.json\<close>, \<open>populate_data\<close> returns normally, leaves the log of POST calls as it was
  and prints the notice that the file was not found. The loop of \<open>main\<close> then goes on:
  when an entity type follows, \<open>populate_data\<close> is run on it next, from the state that
  holds the notice and the new heading, and its outcome decides how the loop goes on;
  when none follows, the loop returns normally.
\<close>

theorem missing_file_skipped:
  assumes "\<not> os_path_exists ev (''./data/'' @ e @ ''.json'')"
  shows "populate_data ev e s =
      (Inr (), s\<lparr>console := console s @ [File_not_found (''./data/'' @ e @ ''.json'')]\<rparr>) \<and>
    calls (snd (populate_data ev e s)) = calls s \<and>
    populate_each ev (e # rest) s =
      populate_each ev rest
        (s\<lparr>console := console s @
             [Populating e, File_not_found (''./data/'' @ e @ ''.json'')]\<rparr>) \<and>
    populate_each ev (e # e2 # rest) s =
      (case populate_data ev e2
              (s\<lparr>console := console s @
                   [Populating e, File_not_found (''./data/'' @ e @ ''.json''),
                    Populating e2]\<rparr>) of
         (Inl err, s') \<Rightarrow> (Inl err, s')
       | (Inr u, s') \<Rightarrow> populate_each ev rest s') \<and>
    populate_each ev [e] s =
      (Inr (), s\<lparr>console := console s @
                   [Populating e, File_not_found (''./data/'' @ e @ ''.json'')]\<rparr>)"
proof -
  have skip: "populate_data ev e t =
      (Inr (), t\<lparr>console := console t @ [File_not_found (''./data/'' @ e @ ''.json'')]\<rparr>)"
    for t
    using assms by (simp add: populate_data_def fixture_path_def py_print_def)
  show ?thesis by (simp add: skip py_print_def)
qed

theorem missing_file_skipped_witness:
  "populate_each (env_with three_files api_201) [''department'', ''user'']
       \<lparr>calls = [], console = []\<rparr> =
     (Inr (),
      \<lparr>calls =
         [\<lparr>url = ''http://localhost:8080/api/v1/users'', json = JObj [(''id'', JStr ''u1'')],
           headers = [(''Authorization'', ''Bearer <YOUR_BEARER>''),
                      (''Content-Type'', ''application/json'')]\<rparr>,
          \<lparr>url = ''http://localhost:8080/api/v1/users'', json = JObj [(''name'', JStr ''Ann'')],
           headers = [(''Authorization'', ''Bearer <YOUR_BEARER>''),
                      (''Content-Type'', ''application/json'')]\<rparr>],
       console =
         [Populating ''department'', File_not_found ''./data/department.json'',
          Populating ''user'', Successfully_created ''user'' (JStr ''u1''),
          Successfully_created ''user'' (JStr ''N/A'')]\<rparr>)"
proof -
  have absent: "\<not> os_path_exists (env_with three_files api_201)
      (''./data/'' @ ''department'' @ ''.json'')"
    by (simp add: env_with_def three_files_def)
  have user: "populate_data (env_with three_files api_201) ''user''
      \<lparr>calls = [],
       console = [Populating ''department'', File_not_found ''./data/department.json'',
                  Populating ''user'']\<rparr> =
     (Inr (),
      \<lparr>calls =
         [\<lparr>url = ''http://localhost:8080/api/v1/users'', json = JObj [(''id'', JStr ''u1'')],
           headers = [(''Authorization'', ''Bearer <YOUR_BEARER>''),
                      (''Content-Type'', ''application/json'')]\<rparr>,
          \<lparr>url = ''http://localhost:8080/api/v1/users'', json = JObj [(''name'', JStr ''Ann'')],
           headers = [(''Authorization'', ''Bearer <YOUR_BEARER>''),
                      (''Content-Type'', ''application/json'')]\<rparr>],
       console =
         [Populating ''department'', File_not_found ''./data/department.json'',
          Populating ''user'', Successfully_created ''user'' (JStr ''u1''),
          Successfully_created ''user'' (JStr ''N/A'')]\<rparr>)"
    by (simp add: populate_data_def create_entity_def dict_get_def py_print_def
          env_with_def three_files_def api_201_def fixture_path_def read_json_file_def
          sample_json_loads_def ENTITIES_def BASE_URL_def HEADERS_def BEARER_TOKEN_def)
  from missing_file_skipped
    [OF absent, of "\<lparr>calls = [], console = []\<rparr>" "[]" "''user''"]
  have "populate_each (env_with three_files api_201) [''department'', ''user'']
       \<lparr>calls = [], console = []\<rparr> =
      (case populate_data (env_with three_files api_201) ''user''
              \<lparr>calls = [],
               console = [Populating ''department'', File_not_found ''./data/department.json'',
                          Populating ''user'']\<rparr> of
         (Inl err, s') \<Rightarrow> (Inl err, s')
       | (Inr u, s') \<Rightarrow> populate_each (env_with three_files api_201) [] s')"
    by (simp del: populate_each.simps)
  with user show ?thesis by simp
qed






subsection \<open>The whole run\<close>

lemma creation_order_known: "set creation_order \<subseteq> dom (map_of ENTITIES)"
  by (simp add: creation_order_def ENTITIES_def)

lemma create_entity_no_KeyError:
  "map_of ENTITIES e = Some p \<Longrightarrow> fst (create_entity ev e d s) \<noteq> Inl (KeyError k)"
  by (simp add: create_entity_def dict_get_def Let_def
        split: option.splits sum.splits jvalue.splits)

lemma create_each_no_KeyError:
  "map_of ENTITIES e = Some p \<Longrightarrow> fst (create_each ev e ds s) \<noteq> Inl (KeyError k)"
proof (induction ds arbitrary: s)
  case Nil
  show ?case by simp
next
  case (Cons d ds)
  obtain res s' where run: "create_entity ev e d s = (res, s')"
    by (cases "create_entity ev e d s")
  with create_entity_no_KeyError [OF Cons.prems, of ev d s k]
  have "res \<noteq> Inl (KeyError k)" by simp
  then show ?case using run Cons.IH [OF Cons.prems, of s']
    by (cases res) simp_all
qed

lemma populate_data_no_KeyError:
  "map_of ENTITIES e = Some p \<Longrightarrow> fst (populate_data ev e s) \<noteq> Inl (KeyError k)"
  using create_entity_no_KeyError [of e p ev _ s k] create_each_no_KeyError [of e p ev _ s k]
  by (auto simp add: populate_data_def read_json_file_def Let_def
        split: option.splits sum.splits jvalue.splits)

lemma populate_each_no_KeyError:
  "set es \<subseteq> dom (map_of ENTITIES) \<Longrightarrow> fst (populate_each ev es s) \<noteq> Inl (KeyError k)"
proof (induction es arbitrary: s)
  case Nil
  show ?case by simp
next
  case (Cons e es)
  from Cons.prems obtain p where p: "map_of ENTITIES e = Some p" by auto
  from Cons.prems have es: "set es \<subseteq> dom (map_of ENTITIES)" by simp
  obtain res s' where run: "populate_data ev e (py_print s (Populating e)) = (res, s')"
    by (cases "populate_data ev e (py_print s (Populating e))")
  with populate_data_no_KeyError [OF p, of ev "py_print s (Populating e)" k]
  have "res \<noteq> Inl (KeyError k)" by simp
  then show ?case using run Cons.IH [OF es, of s']
    by (cases res) simp_all
qed

text \<open>
  C10: every entity type of the creation order is a key of \<open>ENTITIES\<close>, and no run of
  \<open>main\<close> ends with the \<open>KeyError\<close> of the path lookup in \<open>create_entity\<close>, whatever the
  files hold and whatever the API answers.
\<close>

theorem creation_order_has_paths:
  "set creation_order \<subseteq> dom (map_of ENTITIES) \<and> fst (main ev) \<noteq> Inl (KeyError k)"
  using populate_each_no_KeyError [OF creation_order_known, of ev _ k] creation_order_known
  by (simp add: main_def)

theorem creation_order_has_paths_witness:
  "map_of ENTITIES ''attributeGroup'' = Some ''/attribute-groups'' \<and>
   fst (main (env_with three_files api_201)) \<noteq> Inl (KeyError ''attributeGroup'')"
proof -
  have "''attributeGroup'' \<in> set creation_order"
    by (simp add: creation_order_def)
  with creation_order_has_paths [of "env_with three_files api_201" "''attributeGroup''"]
  have "''attributeGroup'' \<in> dom (map_of ENTITIES)"
    and "fst (main (env_with three_files api_201)) \<noteq> Inl (KeyError ''attributeGroup'')"
    by auto
  then show ?thesis by (simp add: ENTITIES_def)
qed

lemma populate_data_201:
  assumes "map_of ENTITIES e = Some p"
    and "\<forall>log c. \<exists>r. requests_post ev log c = Some r \<and> status_code r = 201"
    and "os_path_exists ev (fixture_path e)"
    and "read_json_file ev (fixture_path e) = Inr v"
    and "list_all is_record (fixture_records v)"
  shows "populate_data ev e s =
    (Inr (), s\<lparr>calls := calls s @ entity_calls ev e,
               console := console s @
                 map (\<lambda>d. Successfully_created e (record_id d)) (file_records ev e)\<rparr>)"
proof (cases v)
  case (JArr items)
  with assms(5) have "list_all is_record items" by (simp add: fixture_records_def)
  from create_each_201 [OF assms(1,2) this] show ?thesis
    using assms(1,3,4) JArr
    by (simp add: populate_data_def entity_calls_def file_records_def fixture_records_def)
next
  case (JObj kvs)
  from assms(2) obtain r where r: "requests_post ev (calls s) (request_for p v) = Some r"
    and st: "status_code r = 201" by blast
  from JObj have "is_record v" by (simp add: is_record_def)
  from create_entity_record [OF assms(1) this r] st show ?thesis
    using assms(1,3,4) JObj
    by (simp add: populate_data_def entity_calls_def file_records_def fixture_records_def
          report_def)
qed (use assms(5) in \<open>simp_all add: fixture_records_def is_record_def\<close>)

lemma populate_each_201:
  assumes "\<forall>log c. \<exists>r. requests_post ev log c = Some r \<and> status_code r = 201"
    and "set es \<subseteq> dom (map_of ENTITIES)"
    and "\<forall>e\<in>set es. os_path_exists ev (fixture_path e) \<and>
           (\<exists>v. read_json_file ev (fixture_path e) = Inr v \<and>
                list_all is_record (fixture_records v))"
  shows "populate_each ev es s =
    (Inr (), s\<lparr>calls := calls s @ concat (map (entity_calls ev) es),
               console := console s @ concat (map (entity_success_lines ev) es)\<rparr>)"
  using assms(2,3)
proof (induction es arbitrary: s)
  case Nil
  show ?case by simp
next
  case (Cons e es)
  from Cons.prems(1) obtain p where p: "map_of ENTITIES e = Some p" by auto
  from Cons.prems(2) obtain v where ex: "os_path_exists ev (fixture_path e)"
    and v: "read_json_file ev (fixture_path e) = Inr v"
    and rs: "list_all is_record (fixture_records v)" by auto
  from Cons.prems have "set es \<subseteq> dom (map_of ENTITIES)"
    and "\<forall>e\<in>set es. os_path_exists ev (fixture_path e) \<and>
           (\<exists>v. read_json_file ev (fixture_path e) = Inr v \<and>
                list_all is_record (fixture_records v))" by simp_all
  note IH = Cons.IH [OF this]
  show ?case
    using populate_data_201 [OF p assms(1) ex v rs, of "py_print s (Populating e)"] IH
    by (simp add: py_print_def entity_success_lines_def)
qed

text \<open>
  C1: when each of the ten entity types has a fixture file that parses to a record or
  to an array of records, and the API answers every POST with status 201, the run of
  \<open>main\<close> returns normally; the POST calls it has made are those of organization, then
  department, permission, role, group, user, resourceType, attributeGroup, resource and
  policy, each group holding one call per record of that type's file in the file's
  order; and the console holds, for each type in the same order, its heading followed
  by one success line per record.
\<close>

theorem run_all_201:
  assumes "\<forall>e\<in>set creation_order. os_path_exists ev (fixture_path e) \<and>
           (\<exists>v. read_json_file ev (fixture_path e) = Inr v \<and>
                list_all is_record (fixture_records v))"
    and "\<forall>log c. \<exists>r. requests_post ev log c = Some r \<and> status_code r = 201"
  shows "main ev =
    (Inr (),
     \<lparr>calls = concat (map (entity_calls ev)
         [''organization'', ''department'', ''permission'', ''role'', ''group'', ''user'',
          ''resourceType'', ''attributeGroup'', ''resource'', ''policy'']),
      console = concat (map (entity_success_lines ev)
         [''organization'', ''department'', ''permission'', ''role'', ''group'', ''user'',
          ''resourceType'', ''attributeGroup'', ''resource'', ''policy''])\<rparr>)"
proof -
  have "main ev =
    (Inr (), \<lparr>calls = concat (map (entity_calls ev) creation_order),
      console = concat (map (entity_success_lines ev) creation_order)\<rparr>)"
    unfolding main_def
    using populate_each_201 [OF assms(2) creation_order_known assms(1)] by simp
  then show ?thesis by (simp only: creation_order_def)
qed

theorem run_all_201_witness:
  "main (env_with ten_files api_201) =
    (Inr (),
     \<lparr>calls =
        [\<lparr>url = ''http://localhost:8080/api/v1/organizations'',
          json = JObj [(''id'', JStr ''org1'')],
          headers = [(''Authorization'', ''Bearer <YOUR_BEARER>''),
                     (''Content-Type'', ''application/json'')]\<rparr>,
         \<lparr>url = ''http://localhost:8080/api/v1/users'',
          json = JObj [(''id'', JStr ''u1'')],
          headers = [(''Authorization'', ''Bearer <YOUR_BEARER>''),
                     (''Content-Type'', ''application/json'')]\<rparr>,
         \<lparr>url = ''http://localhost:8080/api/v1/users'',
          json = JObj [(''name'', JStr ''Ann'')],
          headers = [(''Authorization'', ''Bearer <YOUR_BEARER>''),
                     (''Content-Type'', ''application/json'')]\<rparr>],
      console =
        [Populating ''organization'',
         Successfully_created ''organization'' (JStr ''org1''),
         Populating ''department'',
         Populating ''permission'',
         Populating ''role'',
         Populating ''group'',
         Populating ''user'',
         Successfully_created ''user'' (JStr ''u1''),
         Successfully_created ''user'' (JStr ''N/A''),
         Populating ''resourceType'',
         Populating ''attributeGroup'',
         Populating ''resource'',
         Populating ''policy'']\<rparr>)"
proof -
  have files: "\<forall>e\<in>set creation_order.
      os_path_exists (env_with ten_files api_201) (fixture_path e) \<and>
      (\<exists>v. read_json_file (env_with ten_files api_201) (fixture_path e) = Inr v \<and>
           list_all is_record (fixture_records v))"
    by (simp add: creation_order_def env_with_def ten_files_def fixture_path_def
          read_json_file_def sample_json_loads_def fixture_records_def is_record_def)
  have api: "\<forall>log c. \<exists>r. requests_post (env_with ten_files api_201) log c = Some r \<and>
      status_code r = 201"
    by (simp add: env_with_def api_201_def)
  from run_all_201 [OF files api] show ?thesis
    by (simp add: entity_calls_def entity_success_lines_def file_records_def
          request_for_def record_id_def ENTITIES_def BASE_URL_def HEADERS_def BEARER_TOKEN_def
          env_with_def ten_files_def fixture_path_def read_json_file_def
          sample_json_loads_def fixture_records_def)
qed





subsection \<open>A fixture file that is not valid JSON\<close>

lemma populate_each_append:
  "populate_each ev (xs @ ys) s =
    (case populate_each ev xs s of
       (Inl err, s') \<Rightarrow> (Inl err, s')
     | (Inr u, s') \<Rightarrow> populate_each ev ys s')"
  by (induction xs arbitrary: s) (auto split: prod.splits sum.splits)

text \<open>
  C2, as the script behaves: when the text of an entity type's fixture file is not
  valid JSON, \<open>populate_data\<close> ends with \<open>JSONDecodeError\<close> before any POST for that
  file, and nothing catches the error: the run of the loop of \<open>main\<close> ends with it right
  after the heading of that entity type, and none of the entity types that follow in
  the creation order is processed. The entity types before it have been processed.
\<close>

theorem parse_error_ends_run:
  assumes "os_path_exists ev (fixture_path e)"
    and "open_read ev (fixture_path e) = Some txt"
    and "json_loads ev txt = None"
    and "populate_each ev before s = (Inr (), s1)"
  shows "populate_data ev e s1 = (Inl JSONDecodeError, s1) \<and>
    populate_each ev (before @ e # rest) s =
      (Inl JSONDecodeError, s1\<lparr>console := console s1 @ [Populating e]\<rparr>)"
  using assms
  by (simp add: populate_each_append populate_data_def read_json_file_def py_print_def)

theorem parse_error_ends_run_witness:
  "populate_each (env_with broken_files api_201)
      ([''organization''] @ ''department'' # [''permission'', ''user''])
      \<lparr>calls = [], console = []\<rparr> =
    (Inl JSONDecodeError,
     \<lparr>calls = [\<lparr>url = ''http://localhost:8080/api/v1/organizations'',
                json = JObj [(''id'', JStr ''org1'')],
                headers = [(''Authorization'', ''Bearer <YOUR_BEARER>''),
                           (''Content-Type'', ''application/json'')]\<rparr>],
      console = [Populating ''organization'',
                 Successfully_created ''organization'' (JStr ''org1''),
                 Populating ''department'']\<rparr>)"
proof -
  have there: "os_path_exists (env_with broken_files api_201) (fixture_path ''department'')"
    by (simp add: env_with_def broken_files_def fixture_path_def)
  have cut: "open_read (env_with broken_files api_201) (fixture_path ''department'') =
      Some ''{\"id\": ''"
    by (simp add: env_with_def broken_files_def fixture_path_def)
  have invalid: "json_loads (env_with broken_files api_201) ''{\"id\": '' = None"
    by (simp add: env_with_def sample_json_loads_def)
  have first: "populate_each (env_with broken_files api_201) [''organization'']
      \<lparr>calls = [], console = []\<rparr> =
    (Inr (),
     \<lparr>calls = [\<lparr>url = ''http://localhost:8080/api/v1/organizations'',
                json = JObj [(''id'', JStr ''org1'')],
                headers = [(''Authorization'', ''Bearer <YOUR_BEARER>''),
                           (''Content-Type'', ''application/json'')]\<rparr>],
      console = [Populating ''organization'',
                 Successfully_created ''organization'' (JStr ''org1'')]\<rparr>)"
    by (simp add: populate_data_def create_entity_def dict_get_def py_print_def
          env_with_def broken_files_def api_201_def fixture_path_def read_json_file_def
          sample_json_loads_def ENTITIES_def BASE_URL_def HEADERS_def BEARER_TOKEN_def)
  from parse_error_ends_run [OF there cut invalid first, of "[''permission'', ''user'']"]
  show ?thesis by simp
qed

text \<open>
  C2, as the claim has it, fails: with a valid file for organization, a file for
  department that is cut off, and a valid file of two records for user, the run ends
  with \<open>JSONDecodeError\<close> under the heading of department; user, which comes later in
  the creation order, is never processed.
\<close>

theorem parse_error_counterexample:
  "file_records (env_with broken_files api_201) ''user'' =
     [JObj [(''id'', JStr ''u1'')], JObj [(''name'', JStr ''Ann'')]] \<and>
   Populating ''user'' \<notin> set (console (snd (main (env_with broken_files api_201)))) \<and>
   main (env_with broken_files api_201) =
     (Inl JSONDecodeError,
      \<lparr>calls = [\<lparr>url = ''http://localhost:8080/api/v1/organizations'',
                 json = JObj [(''id'', JStr ''org1'')],
                 headers = [(''Authorization'', ''Bearer <YOUR_BEARER>''),
                            (''Content-Type'', ''application/json'')]\<rparr>],
       console = [Populating ''organization'',
                  Successfully_created ''organization'' (JStr ''org1''),
                  Populating ''department'']\<rparr>)"
  by (simp add: main_def creation_order_def populate_data_def create_entity_def dict_get_def
        py_print_def file_records_def fixture_records_def
        env_with_def broken_files_def api_201_def fixture_path_def read_json_file_def
        sample_json_loads_def ENTITIES_def BASE_URL_def HEADERS_def BEARER_TOKEN_def)

end
